theory Spec2Isabelle
  imports Complex_Main "HOL-Library.Monad_Syntax"
begin

section \<open>Mars lander: mechanical simulation functions (lander.cpp)\<close>

text \<open>
  The source computes in C++ \<open>double\<close>. The embedding computes in the real numbers: it
  follows the formulas and the control flow of the source, not the rounding of IEEE
  arithmetic. A division whose divisor is zero has no real value (IEEE gives an
  infinity or a NaN there); the embedding returns \<open>None\<close> at such a division, so every
  function that divides by a quantity that can vanish has an \<open>option\<close> result.
\<close>

subsection \<open>The vector type of lander.h\<close>

text \<open>
  Modelled from the spec: the class \<open>vector3d\<close> is declared in lander.h, which is not
  among the sources. The spec describes it as a 3D vector value type of three scalar
  components (x, y, z) with \<open>norm\<close> (unit direction) and squared magnitude
  (\<open>abs2\<close>) operations, whose magnitude operations must guard at the zero vector: here
  \<open>norm\<close> returns the zero vector unchanged, which gives the zero drag that the spec
  expects of a lander at rest. The operators that lander.cpp uses are the componentwise
  sum and difference, the product with a scalar on either side, and the quotient by a
  scalar.
\<close>

record vector3d =
  x :: real
  y :: real
  z :: real

definition vadd :: "vector3d \<Rightarrow> vector3d \<Rightarrow> vector3d" where
  "vadd a b = \<lparr>x = x a + x b, y = y a + y b, z = z a + z b\<rparr>"

definition vsub :: "vector3d \<Rightarrow> vector3d \<Rightarrow> vector3d" where
  "vsub a b = \<lparr>x = x a - x b, y = y a - y b, z = z a - z b\<rparr>"

definition smul :: "real \<Rightarrow> vector3d \<Rightarrow> vector3d" where
  \<comment> \<open>\<open>double * vector3d\<close>\<close>
  "smul k a = \<lparr>x = k * x a, y = k * y a, z = k * z a\<rparr>"

definition vmul :: "vector3d \<Rightarrow> real \<Rightarrow> vector3d" where
  \<comment> \<open>\<open>vector3d * double\<close>\<close>
  "vmul a k = \<lparr>x = x a * k, y = y a * k, z = z a * k\<rparr>"

definition vdiv :: "vector3d \<Rightarrow> real \<Rightarrow> vector3d option" where
  \<comment> \<open>\<open>vector3d / double\<close>; no real value when the divisor is zero\<close>
  "vdiv a k = (if k = 0 then None else Some \<lparr>x = x a / k, y = y a / k, z = z a / k\<rparr>)"

definition rdiv :: "real \<Rightarrow> real \<Rightarrow> real option" where
  \<comment> \<open>\<open>double / double\<close>; no real value when the divisor is zero\<close>
  "rdiv a k = (if k = 0 then None else Some (a / k))"

definition abs2 :: "vector3d \<Rightarrow> real" where
  "abs2 a = x a * x a + y a * y a + z a * z a"

definition abs3d :: "vector3d \<Rightarrow> real" where
  \<comment> \<open>the magnitude, \<open>abs()\<close> of the class\<close>
  "abs3d a = sqrt (abs2 a)"

definition norm3d :: "vector3d \<Rightarrow> vector3d" where
  \<comment> \<open>the unit direction, \<open>norm()\<close> of the class, guarded at the zero vector\<close>
  "norm3d a = (if abs3d a = 0 then a
               else \<lparr>x = x a / abs3d a, y = y a / abs3d a, z = z a / abs3d a\<rparr>)"

subsection \<open>Constants and global state declared in lander.h\<close>

datatype parachute_status_t = NOT_DEPLOYED | DEPLOYED | OTHER_STATUS
  \<comment> \<open>lander.cpp tests for the first two; \<open>OTHER_STATUS\<close> stands for any further value
      of the enumeration type\<close>

text \<open>
  The macros of lander.h that lander.cpp uses are parameters of the model, together
  with \<open>vector3d_init\<close>, the value that a declaration \<open>vector3d v;\<close> without an
  initialiser gives to \<open>v\<close> (the class's default constructor).
\<close>

record lander_h =
  GRAVITY :: real
  MARS_MASS :: real
  MARS_RADIUS :: real
  EXOSPHERE :: real
  DRAG_COEF_LANDER :: real
  DRAG_COEF_CHUTE :: real
  LANDER_SIZE :: real
  UNLOADED_LANDER_MASS :: real
  FUEL_CAPACITY :: real
  FUEL_DENSITY :: real
  MAX_THRUST :: real
  vector3d_init :: vector3d

text \<open>
  The global variables that lander.cpp reads and writes, and the two function-local
  statics: \<open>previous\<close> of \<open>numerical_dynamics\<close> and \<open>scaling\<close> of \<open>autopilot\<close>.
\<close>

record state =
  position :: vector3d
  velocity :: vector3d
  orientation :: vector3d
  delta_t :: real
  simulation_time :: real
  fuel :: real
  throttle :: real
  parachute_status :: parachute_status_t
  stabilized_attitude :: bool
  autopilot_enabled :: bool
  scenario :: int
  scenario_description :: "nat \<Rightarrow> string"
  previous :: vector3d
  scaling :: real

text \<open>
  The functions that lander.cpp calls and that are defined elsewhere in the simulator
  are parameters as well.
\<close>

record env =
  thrust_wrt_world :: "state \<Rightarrow> vector3d"
  atmospheric_density :: "vector3d \<Rightarrow> real"
  attitude_stabilization :: "state \<Rightarrow> state"

subsection \<open>acceleration (lander.cpp, lines 21 to 40)\<close>

definition a_gravity :: "lander_h \<Rightarrow> vector3d \<Rightarrow> vector3d option" where
  \<comment> \<open>line 26, and line 46 in \<open>autopilot\<close>\<close>
  "a_gravity c p = vdiv (smul (- GRAVITY c * MARS_MASS c) (norm3d p)) (abs2 p)"

definition self_drag :: "env \<Rightarrow> lander_h \<Rightarrow> vector3d \<Rightarrow> vector3d \<Rightarrow> vector3d" where
  \<comment> \<open>lines 29 and 30\<close>
  "self_drag e c p v =
     smul (- 0.5 * atmospheric_density e p * DRAG_COEF_LANDER c
             * (3.1415 * (LANDER_SIZE c)\<^sup>2) * abs2 v) (norm3d v)"

definition para_drag :: "env \<Rightarrow> lander_h \<Rightarrow> vector3d \<Rightarrow> vector3d \<Rightarrow> vector3d" where
  \<comment> \<open>lines 31 and 32\<close>
  "para_drag e c p v =
     vmul (smul (- 0.5 * atmospheric_density e p * DRAG_COEF_CHUTE c
                   * (LANDER_SIZE c * 2)\<^sup>2 * abs2 v) (norm3d v)) 5"

definition drag :: "env \<Rightarrow> lander_h \<Rightarrow> state \<Rightarrow> vector3d \<Rightarrow> vector3d \<Rightarrow> vector3d" where
  \<comment> \<open>the declaration of line 23 and the two assignments of lines 33 and 34\<close>
  "drag e c s p v =
    (let d = vector3d_init c;
         d = (if parachute_status s = DEPLOYED
              then vadd (self_drag e c p v) (para_drag e c p v) else d);
         d = (if parachute_status s = NOT_DEPLOYED then self_drag e c p v else d)
     in d)"

definition mass :: "lander_h \<Rightarrow> state \<Rightarrow> real" where
  \<comment> \<open>line 36\<close>
  "mass c s = fuel s * FUEL_CAPACITY c * FUEL_DENSITY c"

definition acceleration :: "env \<Rightarrow> lander_h \<Rightarrow> state \<Rightarrow> vector3d \<Rightarrow> vector3d \<Rightarrow> vector3d option" where
  "acceleration e c s p v = do {
     g \<leftarrow> a_gravity c p;
     let thrust = thrust_wrt_world e s;
     q \<leftarrow> vdiv (vadd thrust (drag e c s p v)) (mass c s);
     Some (vadd g q)
   }"

subsection \<open>autopilot (lander.cpp, lines 42 to 93)\<close>

definition force :: "lander_h \<Rightarrow> state \<Rightarrow> real option" where
  \<comment> \<open>lines 46 and 48\<close>
  "force c s = do {
     a \<leftarrow> a_gravity c (position s);
     Some (y a * (fuel s * FUEL_CAPACITY c * FUEL_DENSITY c + UNLOADED_LANDER_MASS c))
   }"

definition alt :: "lander_h \<Rightarrow> state \<Rightarrow> real" where
  \<comment> \<open>line 51; \<open>abs\<close> is the absolute value of a \<open>double\<close>, as \<open>cmath\<close> declares it\<close>
  "alt c s = \<bar>y (position s)\<bar> - MARS_RADIUS c"

definition autopilot :: "lander_h \<Rightarrow> state \<Rightarrow> state option" where
  \<comment> \<open>\<open>sc\<close> and \<open>t\<close> are the static \<open>scaling\<close> and the global \<open>throttle\<close>, which the
      function only writes (\<open>scaling\<close> is read after it is written); they are stored
      into the state at the end\<close>
  "autopilot c s = do {
     f \<leftarrow> force c s;
     let sc = (4000 - alt c s) / 4000;
     let sc = (if sc < 0 then 0 else sc);
     r \<leftarrow> rdiv f (MAX_THRUST c);
     let t = r * sc;
     let t = (if y (velocity s) < 0 then 0 else t);
     t \<leftarrow> (if alt c s < 300 then do {
             t \<leftarrow> (if y (velocity s) > 0.6 \<and> y (velocity s) < 3
                   then do { r \<leftarrow> rdiv f (MAX_THRUST c); Some (r * 0.5) }
                   else Some t);
             t \<leftarrow> (if y (velocity s) > 3
                   then rdiv f (MAX_THRUST c)
                   else Some t);
             Some (if y (velocity s) < 0.6 then 0 else t)
           } else Some t);
     Some (s\<lparr>scaling := sc, throttle := t\<rparr>)
   }"

subsection \<open>numerical_dynamics (lander.cpp, lines 95 to 125)\<close>

definition numerical_dynamics :: "env \<Rightarrow> lander_h \<Rightarrow> state \<Rightarrow> state option" where
  "numerical_dynamics e c s = do {
     s \<leftarrow> (if simulation_time s = 0 then do {
             acc \<leftarrow> acceleration e c s (position s) (velocity s);
             let s = s\<lparr>previous := position s\<rparr>;
             let s = s\<lparr>position := vadd (vadd (previous s) (vmul (velocity s) (delta_t s)))
                                        (smul (0.5 * delta_t s * delta_t s) acc)\<rparr>;
             Some (s\<lparr>velocity := vadd (velocity s) (smul (delta_t s) acc)\<rparr>)
           } else do {
             acc \<leftarrow> acceleration e c s (position s) (velocity s);
             let next = vadd (vsub (smul 2 (position s)) (previous s))
                             (vmul (vmul acc (delta_t s)) (delta_t s));
             w \<leftarrow> vdiv (vsub next (previous s)) (2 * delta_t s);
             let s = s\<lparr>velocity := w\<rparr>;
             let s = s\<lparr>previous := position s\<rparr>;
             Some (s\<lparr>position := next\<rparr>)
           });
     s \<leftarrow> (if autopilot_enabled s then autopilot c s else Some s);
     Some (if stabilized_attitude s then attitude_stabilization e s else s)
   }"

subsection \<open>initialize_simulation (lander.cpp, lines 127 to 230)\<close>

definition vector3d :: "real \<Rightarrow> real \<Rightarrow> real \<Rightarrow> vector3d" where
  \<comment> \<open>the three-argument constructor\<close>
  "vector3d a b d = \<lparr>x = a, y = b, z = d\<rparr>"

definition describe_scenarios :: "state \<Rightarrow> state" where
  \<comment> \<open>lines 138 to 147: the ten assignments to \<open>scenario_description\<close>\<close>
  "describe_scenarios s = s\<lparr>scenario_description := (scenario_description s)
     (0 := ''circular orbit'',
      1 := ''descent from 10km'',
      2 := ''elliptical orbit, thrust changes orbital plane'',
      3 := ''polar launch at escape velocity (but drag prevents escape)'',
      4 := ''elliptical orbit that clips the atmosphere and decays'',
      5 := ''descent from 200km'',
      6 := [],
      7 := [],
      8 := [],
      9 := [])\<rparr>"

definition initialize_simulation :: "lander_h \<Rightarrow> state \<Rightarrow> state" where
  \<comment> \<open>the switch of lines 149 to 229 has cases 0 to 9 and no default\<close>
  "initialize_simulation c s =
    (let s = describe_scenarios s
     in
       if scenario s = 0 then
         s\<lparr>position := vector3d (1.2 * MARS_RADIUS c) 0 0,
           velocity := vector3d 0 (- 3247.087385863725) 0,
           orientation := vector3d 0 90 0,
           delta_t := 0.1,
           parachute_status := NOT_DEPLOYED,
           stabilized_attitude := False,
           autopilot_enabled := False\<rparr>
       else if scenario s = 1 then
         s\<lparr>position := vector3d 0 (- (MARS_RADIUS c + 10000)) 0,
           velocity := vector3d 0 0 0,
           orientation := vector3d 0 0 90,
           delta_t := 0.1,
           parachute_status := NOT_DEPLOYED,
           stabilized_attitude := True,
           autopilot_enabled := False\<rparr>
       else if scenario s = 2 then
         s\<lparr>position := vector3d 0 0 (1.2 * MARS_RADIUS c),
           velocity := vector3d 3500 0 0,
           orientation := vector3d 0 0 90,
           delta_t := 0.1,
           parachute_status := NOT_DEPLOYED,
           stabilized_attitude := False,
           autopilot_enabled := False\<rparr>
       else if scenario s = 3 then
         s\<lparr>position := vector3d 0 0 (MARS_RADIUS c + LANDER_SIZE c / 2),
           velocity := vector3d 0 0 5027,
           orientation := vector3d 0 0 0,
           delta_t := 0.1,
           parachute_status := NOT_DEPLOYED,
           stabilized_attitude := False,
           autopilot_enabled := False\<rparr>
       else if scenario s = 4 then
         s\<lparr>position := vector3d 0 0 (MARS_RADIUS c + 100000),
           velocity := vector3d 4000 0 0,
           orientation := vector3d 0 90 0,
           delta_t := 0.1,
           parachute_status := NOT_DEPLOYED,
           stabilized_attitude := False,
           autopilot_enabled := False\<rparr>
       else if scenario s = 5 then
         s\<lparr>position := vector3d 0 (- (MARS_RADIUS c + EXOSPHERE c)) 0,
           velocity := vector3d 0 0 0,
           orientation := vector3d 0 0 90,
           delta_t := 0.1,
           parachute_status := NOT_DEPLOYED,
           stabilized_attitude := True,
           autopilot_enabled := False\<rparr>
       else s)"

subsection \<open>Concrete inputs\<close>

text \<open>
  The parameters at the values of the Mars lander exercise: the gravitational constant,
  the mass and radius of Mars, a lander of 100 kg carrying up to 100 litres of fuel, and
  a maximum thrust of 1.5 times the weight of the full lander at the surface. With
  these values a circular orbit at 1.2 times the radius has the speed 3247.087... of
  scenario 0. In this instance a declaration without initialiser gives the zero vector.
\<close>

definition mars :: lander_h where
  "mars = \<lparr>GRAVITY = 6.673 / 10 ^ 11, MARS_MASS = 6.42 * 10 ^ 23, MARS_RADIUS = 3386000,
     EXOSPHERE = 200000, DRAG_COEF_LANDER = 1, DRAG_COEF_CHUTE = 2, LANDER_SIZE = 1,
     UNLOADED_LANDER_MASS = 100, FUEL_CAPACITY = 100, FUEL_DENSITY = 1,
     MAX_THRUST = 1.5 * (1 * 100 + 100)
                    * (6.673 / 10 ^ 11 * (6.42 * 10 ^ 23) / (3386000 * 3386000)),
     vector3d_init = vector3d 0 0 0\<rparr>"

text \<open>A state before \<open>initialize_simulation\<close>: everything zero, the tank full.\<close>

definition blank :: state where
  "blank = \<lparr>position = vector3d 0 0 0, velocity = vector3d 0 0 0,
     orientation = vector3d 0 0 0, delta_t = 0, simulation_time = 0, fuel = 1, throttle = 0,
     parachute_status = NOT_DEPLOYED, stabilized_attitude = False, autopilot_enabled = False,
     scenario = 0, scenario_description = (\<lambda>_. []), previous = vector3d 0 0 0,
     scaling = 0\<rparr>"

text \<open>
  An environment with the same atmospheric density everywhere, a constant thrust vector
  and an attitude stabilization that changes nothing.
\<close>

definition uniform_env :: "real \<Rightarrow> vector3d \<Rightarrow> env" where
  "uniform_env rho th = \<lparr>thrust_wrt_world = (\<lambda>_. th), atmospheric_density = (\<lambda>_. rho),
     attitude_stabilization = (\<lambda>s. s)\<rparr>"

subsection \<open>The mass as the spec words it\<close>

text \<open>
  The spec gives the current mass of the lander as
  \<open>unloadedMass + fuelFraction * fuelCapacityMass * fuelDensity\<close>; \<open>spec_mass\<close> follows
  these words, to be compared with \<open>mass\<close>, which follows line 36 of the source.
\<close>

definition spec_mass :: "lander_h \<Rightarrow> state \<Rightarrow> real" where
  "spec_mass c s = UNLOADED_LANDER_MASS c + fuel s * FUEL_CAPACITY c * FUEL_DENSITY c"

subsection \<open>Ascent as the spec words it\<close>

text \<open>
  The spec calls a lander ascending when it moves away from the surface. \<open>ascending\<close>
  follows these words: the velocity has a positive component along the position vector,
  which points from the centre of the planet to the lander. It is compared with the
  test \<open>velocity.y < 0\<close> of line 55.
\<close>

definition ascending :: "state \<Rightarrow> bool" where
  "ascending s \<longleftrightarrow>
     0 < x (position s) * x (velocity s) + y (position s) * y (velocity s)
           + z (position s) * z (velocity s)"

section \<open>Vector algebra\<close>

lemma vmul_smul: "vmul a k = smul k a"
  by (simp add: vmul_def smul_def mult.commute)

lemma smul_smul: "smul k (smul l a) = smul (k * l) a"
  by (simp add: smul_def mult.assoc)

lemma vadd_smul: "vadd (smul k a) (smul l a) = smul (k + l) a"
  by (simp add: vadd_def smul_def distrib_right)

lemma abs2_smul: "abs2 (smul k a) = k\<^sup>2 * abs2 a"
  by (simp add: abs2_def smul_def power2_eq_square algebra_simps)

lemma abs3d_smul: "abs3d (smul k a) = \<bar>k\<bar> * abs3d a"
  by (simp add: abs3d_def abs2_smul real_sqrt_mult)

lemma abs2_nonneg: "0 \<le> abs2 a"
  by (simp add: abs2_def)

lemma abs3d_norm3d: "abs3d a \<noteq> 0 \<Longrightarrow> abs3d (norm3d a) = 1"
proof -
  assume nz: "abs3d a \<noteq> 0"
  have "norm3d a = smul (1 / abs3d a) a"
    using nz by (simp add: norm3d_def smul_def)
  then have "abs3d (norm3d a) = \<bar>1 / abs3d a\<bar> * abs3d a"
    by (simp add: abs3d_smul)
  moreover have "0 \<le> abs3d a"
    by (simp add: abs3d_def abs2_nonneg)
  ultimately show ?thesis
    using nz by simp
qed

lemma abs3d_y_axis: "abs3d (vector3d 0 b 0) = \<bar>b\<bar>"
  by (simp add: abs3d_def abs2_def vector3d_def)

lemma norm3d_y_axis: "norm3d (vector3d 0 b 0) = vector3d 0 (sgn b) 0"
  by (simp add: norm3d_def abs3d_y_axis) (simp add: vector3d_def sgn_real_def)

lemma drag_cases:
  "drag e c s p v =
    (if parachute_status s = NOT_DEPLOYED then self_drag e c p v
     else if parachute_status s = DEPLOYED then vadd (self_drag e c p v) (para_drag e c p v)
     else vector3d_init c)"
  by (simp add: drag_def)

lemma drag_sum:
  "vadd (self_drag e c p v) (para_drag e c p v) =
     smul (- (0.5 * atmospheric_density e p * DRAG_COEF_LANDER c * (3.1415 * (LANDER_SIZE c)\<^sup>2) * abs2 v
           + 5 * (0.5 * atmospheric_density e p * DRAG_COEF_CHUTE c * (LANDER_SIZE c * 2)\<^sup>2 * abs2 v)))
       (norm3d v)"
  by (simp add: self_drag_def para_drag_def vmul_smul smul_smul vadd_smul algebra_simps)

section \<open>The force model\<close>

lemma deployed_larger:
  assumes rho: "0 < atmospheric_density e p"
    and cl: "0 \<le> DRAG_COEF_LANDER c" and cc: "0 < DRAG_COEF_CHUTE c"
    and sz: "LANDER_SIZE c \<noteq> 0" and v: "abs3d v \<noteq> 0"
  shows "abs3d (self_drag e c p v) < abs3d (vadd (self_drag e c p v) (para_drag e c p v))"
proof -
  define k1 where "k1 = 0.5 * atmospheric_density e p * DRAG_COEF_LANDER c * (3.1415 * (LANDER_SIZE c)\<^sup>2) * abs2 v"
  define k2 where "k2 = 0.5 * atmospheric_density e p * DRAG_COEF_CHUTE c * (LANDER_SIZE c * 2)\<^sup>2 * abs2 v"
  have v2: "0 < abs2 v"
    using v abs2_nonneg [of v] by (cases "abs2 v = 0") (auto simp: abs3d_def)
  have k1: "0 \<le> k1"
    unfolding k1_def using rho cl v2 by simp
  have "0 < (LANDER_SIZE c * 2)\<^sup>2" using sz by simp
  then have k2: "0 < k2"
    unfolding k2_def using rho cc v2 by simp
  have "self_drag e c p v = smul (- k1) (norm3d v)"
    by (simp add: self_drag_def k1_def)
  then have a: "abs3d (self_drag e c p v) = k1"
    using k1 by (simp add: abs3d_smul abs3d_norm3d [OF v])
  have "vadd (self_drag e c p v) (para_drag e c p v) = smul (- (k1 + 5 * k2)) (norm3d v)"
    by (simp only: drag_sum k1_def k2_def)
  then have b: "abs3d (vadd (self_drag e c p v) (para_drag e c p v)) = k1 + 5 * k2"
    using k1 k2 by (simp add: abs3d_smul abs3d_norm3d [OF v])
  show ?thesis using a b k2 by simp
qed

lemma abs2_vector3d: "abs2 (vector3d a b d) = a * a + b * b + d * d"
  by (simp add: abs2_def vector3d_def)

lemma a_gravity_y_axis:
  "b \<noteq> 0 \<Longrightarrow> a_gravity c (vector3d 0 b 0) = Some (vector3d 0 (- GRAVITY c * MARS_MASS c * sgn b / (b * b)) 0)"
  by (simp add: a_gravity_def norm3d_y_axis abs2_vector3d vdiv_def) (simp add: smul_def vector3d_def)

lemma a_gravity_10km: "a_gravity mars (vector3d 0 (- 3396000) 0) = Some (vector3d 0 (6.673 / 10 ^ 11 * (6.42 * 10 ^ 23) / 3396000\<^sup>2) 0)"
  by (simp add: a_gravity_y_axis) (simp add: mars_def)

lemma acceleration_10km: "acceleration (uniform_env 0 (vector3d 0 (- 200) 0)) mars blank (vector3d 0 (- 3396000) 0) (vector3d 0 0 0)
   = Some (vadd (vector3d 0 (6.673 / 10 ^ 11 * (6.42 * 10 ^ 23) / 3396000\<^sup>2) 0) (vector3d 0 (- 2) 0))"
  apply (simp add: acceleration_def a_gravity_10km drag_cases)
  apply (simp add: blank_def uniform_env_def self_drag_def mass_def mars_def vdiv_def vadd_def smul_def vector3d_def abs2_def)
  done

lemma acceleration_zero_mass: "mass c s = 0 \<Longrightarrow> acceleration e c s p v = None"
  by (cases "a_gravity c p") (simp_all add: acceleration_def vdiv_def)

lemma a_gravity_defined: "abs2 p \<noteq> 0 \<Longrightarrow> \<exists>g. a_gravity c p = Some g"
  by (simp add: a_gravity_def vdiv_def)

lemma a_gravity_init [simp]: "a_gravity (c\<lparr>vector3d_init := d\<rparr>) p = a_gravity c p"
  by (simp add: a_gravity_def)

lemma mass_init [simp]: "mass (c\<lparr>vector3d_init := d\<rparr>) s = mass c s"
  by (simp add: mass_def)

lemma self_drag_init [simp]: "self_drag e (c\<lparr>vector3d_init := d\<rparr>) p v = self_drag e c p v"
  by (simp add: self_drag_def)

lemma para_drag_init [simp]: "para_drag e (c\<lparr>vector3d_init := d\<rparr>) p v = para_drag e c p v"
  by (simp add: para_drag_def)

lemma drag_init_known:
  "parachute_status s \<in> {DEPLOYED, NOT_DEPLOYED} \<Longrightarrow>
     drag e (c\<lparr>vector3d_init := d\<rparr>) s p v = drag e c s p v"
  by (auto simp: drag_cases)

lemma drag_init_other:
  "parachute_status s \<notin> {DEPLOYED, NOT_DEPLOYED} \<Longrightarrow> drag e (c\<lparr>vector3d_init := d\<rparr>) s p v = d"
  by (simp add: drag_cases)

lemma acceleration_init_known:
  "parachute_status s \<in> {DEPLOYED, NOT_DEPLOYED} \<Longrightarrow>
     acceleration e (c\<lparr>vector3d_init := d\<rparr>) s p v = acceleration e c s p v"
  by (simp only: acceleration_def drag_init_known a_gravity_init mass_init)

lemma acceleration_init_other:
  assumes st: "parachute_status s \<notin> {DEPLOYED, NOT_DEPLOYED}"
    and p: "abs2 p \<noteq> 0" and m: "mass c s \<noteq> 0" and d: "d \<noteq> d'"
  shows "acceleration e (c\<lparr>vector3d_init := d\<rparr>) s p v
           \<noteq> acceleration e (c\<lparr>vector3d_init := d'\<rparr>) s p v"
proof -
  obtain g where g: "a_gravity c p = Some g"
    using a_gravity_defined [OF p] by blast
  have "vadd g \<lparr>x = x (vadd (thrust_wrt_world e s) d) / mass c s,
                 y = y (vadd (thrust_wrt_world e s) d) / mass c s,
                 z = z (vadd (thrust_wrt_world e s) d) / mass c s\<rparr>
      \<noteq> vadd g \<lparr>x = x (vadd (thrust_wrt_world e s) d') / mass c s,
                 y = y (vadd (thrust_wrt_world e s) d') / mass c s,
                 z = z (vadd (thrust_wrt_world e s) d') / mass c s\<rparr>"
    using d m by (auto simp: vadd_def)
  then show ?thesis
    using m g by (simp add: acceleration_def drag_init_other [OF st] vdiv_def Let_def)
qed

text \<open>
  C1. The spec has the mass in the division be
  \<open>unloadedMass + fuelFraction * fuelCapacityMass * fuelDensity\<close>. Line 36 computes
  \<open>fuel * FUEL_CAPACITY * FUEL_DENSITY\<close> only. With the tank full, a thrust of 200 N along
  the negative y axis, no atmosphere, and the lander 10 km above the surface on the
  negative y axis, the mass of the source is 100 where the spec's is 200, and the
  acceleration returned is gravity plus \<open>200 / 100\<close>, not gravity plus \<open>200 / 200\<close>. In
  the same state \<open>autopilot\<close> (line 48) weighs the lander at 200.
\<close>

theorem acceleration_omits_unloaded_mass:
  "mass mars blank = 100 \<and> spec_mass mars blank = 200
 \<and> a_gravity mars (vector3d 0 (- 3396000) 0)
     = Some (vector3d 0 (6.673 / 10 ^ 11 * (6.42 * 10 ^ 23) / 3396000\<^sup>2) 0)
 \<and> acceleration (uniform_env 0 (vector3d 0 (- 200) 0)) mars blank
      (vector3d 0 (- 3396000) 0) (vector3d 0 0 0)
     = Some (vadd (vector3d 0 (6.673 / 10 ^ 11 * (6.42 * 10 ^ 23) / 3396000\<^sup>2) 0)
                  (vector3d 0 (- 200 / 100) 0))
 \<and> force mars (blank\<lparr>position := vector3d 0 (- 3396000) 0\<rparr>)
     = Some (6.673 / 10 ^ 11 * (6.42 * 10 ^ 23) / 3396000\<^sup>2 * 200)"
proof -
  have 1: "mass mars blank = 100" "spec_mass mars blank = 200"
    by (simp_all add: mass_def spec_mass_def blank_def mars_def)
  have 2: "force mars (blank\<lparr>position := vector3d 0 (- 3396000) 0\<rparr>)
     = Some (6.673 / 10 ^ 11 * (6.42 * 10 ^ 23) / 3396000\<^sup>2 * 200)"
    by (simp add: force_def a_gravity_10km) (simp add: blank_def mars_def vector3d_def)
  show ?thesis
    using 1 2 a_gravity_10km acceleration_10km by simp
qed

text \<open>
  C6, as the code has it. With parachute status DEPLOYED the drag is the skin drag plus
  the parachute drag, with NOT_DEPLOYED it is the skin drag alone. Where the atmospheric
  density is positive (the chute coefficient positive, the lander coefficient not
  negative, the lander size not zero) and the velocity is not zero, the drag is strictly
  larger in magnitude with the parachute deployed.
\<close>

theorem parachute_drag:
  assumes "0 < atmospheric_density e p"
    and "0 \<le> DRAG_COEF_LANDER c" and "0 < DRAG_COEF_CHUTE c" and "LANDER_SIZE c \<noteq> 0"
    and "abs3d v \<noteq> 0"
  shows "drag e c (s\<lparr>parachute_status := DEPLOYED\<rparr>) p v
           = vadd (self_drag e c p v) (para_drag e c p v)
       \<and> drag e c (s\<lparr>parachute_status := NOT_DEPLOYED\<rparr>) p v = self_drag e c p v
       \<and> abs3d (drag e c (s\<lparr>parachute_status := NOT_DEPLOYED\<rparr>) p v)
           < abs3d (drag e c (s\<lparr>parachute_status := DEPLOYED\<rparr>) p v)"
  using deployed_larger [OF assms] by (simp add: drag_cases)

theorem parachute_drag_witness:
  "abs3d (drag (uniform_env 0.017 (vector3d 0 0 0)) mars (blank\<lparr>parachute_status := NOT_DEPLOYED\<rparr>)
            (vector3d 0 (- 3396000) 0) (vector3d 0 10 0))
     < abs3d (drag (uniform_env 0.017 (vector3d 0 0 0)) mars (blank\<lparr>parachute_status := DEPLOYED\<rparr>)
            (vector3d 0 (- 3396000) 0) (vector3d 0 10 0))"
  using parachute_drag [of "uniform_env 0.017 (vector3d 0 0 0)" "vector3d 0 (- 3396000) 0" mars
      "vector3d 0 10 0" blank]
  by (simp add: drag_cases abs3d_y_axis) (simp add: uniform_env_def mars_def)

text \<open>
  C6 as stated fails where the atmospheric density is zero: at the start of scenario 0,
  with no atmosphere at that height, both drags are the zero vector and the deployed one
  is not strictly larger.
\<close>

theorem parachute_drag_zero_density:
  "\<not> abs3d (drag (uniform_env 0 (vector3d 0 0 0)) mars (blank\<lparr>parachute_status := NOT_DEPLOYED\<rparr>)
            (vector3d (1.2 * 3386000) 0 0) (vector3d 0 (- 3247.087385863725) 0))
     < abs3d (drag (uniform_env 0 (vector3d 0 0 0)) mars (blank\<lparr>parachute_status := DEPLOYED\<rparr>)
            (vector3d (1.2 * 3386000) 0 0) (vector3d 0 (- 3247.087385863725) 0))"
  by (simp add: drag_cases self_drag_def para_drag_def uniform_env_def vmul_smul smul_smul vadd_smul abs3d_smul)

text \<open>
  C7, as the code has it. \<open>acceleration\<close> applies no floor to the mass and signals
  nothing. When the mass it computes is zero it divides by zero and returns no finite
  vector; when the mass is not zero, negative included, the quotient is taken by that
  mass as it is.
\<close>

theorem acceleration_mass_unguarded:
  "(mass c s = 0 \<longrightarrow> acceleration e c s p v = None)
 \<and> (mass c s \<noteq> 0 \<and> abs2 p \<noteq> 0 \<longrightarrow>
      (\<exists>g. a_gravity c p = Some g
         \<and> acceleration e c s p v =
             Some (vadd g \<lparr>x = x (vadd (thrust_wrt_world e s) (drag e c s p v)) / mass c s,
                           y = y (vadd (thrust_wrt_world e s) (drag e c s p v)) / mass c s,
                           z = z (vadd (thrust_wrt_world e s) (drag e c s p v)) / mass c s\<rparr>)))"
proof (intro conjI impI)
  assume "mass c s = 0"
  then show "acceleration e c s p v = None" by (rule acceleration_zero_mass)
next
  assume h: "mass c s \<noteq> 0 \<and> abs2 p \<noteq> 0"
  then obtain g where g: "a_gravity c p = Some g"
    using a_gravity_defined by blast
  with h show "\<exists>g. a_gravity c p = Some g
         \<and> acceleration e c s p v =
             Some (vadd g \<lparr>x = x (vadd (thrust_wrt_world e s) (drag e c s p v)) / mass c s,
                           y = y (vadd (thrust_wrt_world e s) (drag e c s p v)) / mass c s,
                           z = z (vadd (thrust_wrt_world e s) (drag e c s p v)) / mass c s\<rparr>)"
    by (simp add: acceleration_def vdiv_def Let_def)
qed

theorem acceleration_mass_unguarded_witness:
  "acceleration (uniform_env 0 (vector3d 0 (- 200) 0)) mars (blank\<lparr>fuel := 0\<rparr>)
      (vector3d 0 (- 3396000) 0) (vector3d 0 0 0) = None
 \<and> acceleration (uniform_env 0 (vector3d 0 (- 200) 0)) mars (blank\<lparr>fuel := - 0.5\<rparr>)
      (vector3d 0 (- 3396000) 0) (vector3d 0 0 0)
    = Some (vadd (vector3d 0 (6.673 / 10 ^ 11 * (6.42 * 10 ^ 23) / 3396000\<^sup>2) 0) (vector3d 0 4 0))"
  using acceleration_mass_unguarded [of mars "blank\<lparr>fuel := 0\<rparr>" "uniform_env 0 (vector3d 0 (- 200) 0)"
          "vector3d 0 (- 3396000) 0" "vector3d 0 0 0"]
        acceleration_mass_unguarded [of mars "blank\<lparr>fuel := - 0.5\<rparr>" "uniform_env 0 (vector3d 0 (- 200) 0)"
          "vector3d 0 (- 3396000) 0" "vector3d 0 0 0"]
  apply (simp add: a_gravity_10km abs2_vector3d drag_cases)
  apply (simp add: blank_def uniform_env_def self_drag_def mass_def mars_def vadd_def smul_def vector3d_def abs2_def)
  done

text \<open>
  C7 as stated fails with an empty tank: the mass computed is zero and the division by
  it is carried out.
\<close>

theorem acceleration_empty_tank:
  "mass mars (blank\<lparr>fuel := 0\<rparr>) = 0
 \<and> acceleration (uniform_env 0 (vector3d 0 0 0)) mars (blank\<lparr>fuel := 0\<rparr>)
      (vector3d 0 (- 3396000) 0) (vector3d 0 0 0) = None"
proof -
  have m: "mass mars (blank\<lparr>fuel := 0\<rparr>) = 0"
    by (simp add: mass_def blank_def)
  show ?thesis
    using m acceleration_zero_mass [OF m] by simp
qed

text \<open>
  C10. The drag vector is assigned only by the two tests of lines 33 and 34. When
  parachute_status is DEPLOYED or NOT_DEPLOYED, the acceleration does not depend on the
  value \<open>d\<close> that the declaration of line 23 gave it. For any other status the drag is
  still \<open>d\<close> when it is used, and wherever the acceleration is finite (position not the
  origin, mass not zero) two different values of \<open>d\<close> give two different accelerations.
\<close>

theorem drag_unassigned_for_other_status:
  "(parachute_status s \<in> {DEPLOYED, NOT_DEPLOYED} \<longrightarrow>
      acceleration e (c\<lparr>vector3d_init := d\<rparr>) s p v = acceleration e (c\<lparr>vector3d_init := d'\<rparr>) s p v)
 \<and> (parachute_status s \<notin> {DEPLOYED, NOT_DEPLOYED} \<longrightarrow>
      drag e (c\<lparr>vector3d_init := d\<rparr>) s p v = d
    \<and> (abs2 p \<noteq> 0 \<and> mass c s \<noteq> 0 \<and> d \<noteq> d' \<longrightarrow>
         acceleration e (c\<lparr>vector3d_init := d\<rparr>) s p v
           \<noteq> acceleration e (c\<lparr>vector3d_init := d'\<rparr>) s p v))"
  by (simp add: acceleration_init_known drag_init_other acceleration_init_other)

theorem drag_unassigned_for_other_status_witness:
  "acceleration (uniform_env 0 (vector3d 0 (- 200) 0)) (mars\<lparr>vector3d_init := vector3d 1 0 0\<rparr>)
      (blank\<lparr>parachute_status := DEPLOYED\<rparr>) (vector3d 0 (- 3396000) 0) (vector3d 0 10 0)
    = acceleration (uniform_env 0 (vector3d 0 (- 200) 0)) (mars\<lparr>vector3d_init := vector3d 0 0 0\<rparr>)
      (blank\<lparr>parachute_status := DEPLOYED\<rparr>) (vector3d 0 (- 3396000) 0) (vector3d 0 10 0)
 \<and> drag (uniform_env 0 (vector3d 0 (- 200) 0)) (mars\<lparr>vector3d_init := vector3d 1 0 0\<rparr>)
      (blank\<lparr>parachute_status := OTHER_STATUS\<rparr>) (vector3d 0 (- 3396000) 0) (vector3d 0 10 0)
    = vector3d 1 0 0
 \<and> acceleration (uniform_env 0 (vector3d 0 (- 200) 0)) (mars\<lparr>vector3d_init := vector3d 1 0 0\<rparr>)
      (blank\<lparr>parachute_status := OTHER_STATUS\<rparr>) (vector3d 0 (- 3396000) 0) (vector3d 0 10 0)
    \<noteq> acceleration (uniform_env 0 (vector3d 0 (- 200) 0)) (mars\<lparr>vector3d_init := vector3d 0 0 0\<rparr>)
      (blank\<lparr>parachute_status := OTHER_STATUS\<rparr>) (vector3d 0 (- 3396000) 0) (vector3d 0 10 0)"
proof -
  have m: "mass mars (blank\<lparr>parachute_status := OTHER_STATUS\<rparr>) \<noteq> 0"
    by (simp add: mass_def blank_def mars_def)
  have d: "vector3d 1 0 0 \<noteq> vector3d 0 0 0"
    by (simp add: vector3d_def)
  show ?thesis
    using m d
      drag_unassigned_for_other_status [where s = "blank\<lparr>parachute_status := DEPLOYED\<rparr>"
        and e = "uniform_env 0 (vector3d 0 (- 200) 0)" and c = mars and d = "vector3d 1 0 0"
        and p = "vector3d 0 (- 3396000) 0" and v = "vector3d 0 10 0" and d' = "vector3d 0 0 0"]
      drag_unassigned_for_other_status [where s = "blank\<lparr>parachute_status := OTHER_STATUS\<rparr>"
        and e = "uniform_env 0 (vector3d 0 (- 200) 0)" and c = mars and d = "vector3d 1 0 0"
        and p = "vector3d 0 (- 3396000) 0" and v = "vector3d 0 10 0" and d' = "vector3d 0 0 0"]
    by (simp add: abs2_vector3d blank_def)
qed

section \<open>The autopilot\<close>

lemma force_defined: "abs2 (position s) \<noteq> 0 \<Longrightarrow> \<exists>f. force c s = Some f"
  using a_gravity_defined [of "position s" c] by (auto simp: force_def)

lemma autopilot_result:
  assumes f: "force c s = Some f" and m: "MAX_THRUST c \<noteq> 0"
  shows "autopilot c s = Some (s\<lparr>
      scaling := (if (4000 - alt c s) / 4000 < 0 then 0 else (4000 - alt c s) / 4000),
      throttle :=
        (if alt c s < 300 \<and> y (velocity s) < 0.6 then 0
         else if alt c s < 300 \<and> 3 < y (velocity s) then f / MAX_THRUST c
         else if alt c s < 300 \<and> 0.6 < y (velocity s) \<and> y (velocity s) < 3
           then f / MAX_THRUST c * 0.5
         else if y (velocity s) < 0 then 0
         else f / MAX_THRUST c
                * (if (4000 - alt c s) / 4000 < 0 then 0 else (4000 - alt c s) / 4000))\<rparr>)"
  using f m by (simp add: autopilot_def rdiv_def Let_def)

lemma autopilot_throttle:
  assumes f: "force c s = Some f" and m: "MAX_THRUST c \<noteq> 0"
  shows "map_option throttle (autopilot c s) = Some
        (if alt c s < 300 \<and> y (velocity s) < 0.6 then 0
         else if alt c s < 300 \<and> 3 < y (velocity s) then f / MAX_THRUST c
         else if alt c s < 300 \<and> 0.6 < y (velocity s) \<and> y (velocity s) < 3
           then f / MAX_THRUST c * 0.5
         else if y (velocity s) < 0 then 0
         else f / MAX_THRUST c
                * (if (4000 - alt c s) / 4000 < 0 then 0 else (4000 - alt c s) / 4000))"
  by (simp add: autopilot_result [OF f m])

lemma autopilot_scaling:
  assumes f: "force c s = Some f" and m: "MAX_THRUST c \<noteq> 0"
  shows "map_option scaling (autopilot c s) = Some
        (if (4000 - alt c s) / 4000 < 0 then 0 else (4000 - alt c s) / 4000)"
  by (simp add: autopilot_result [OF f m])

lemma abs3d_eq_abs_y: "abs3d p = \<bar>y p\<bar> \<longleftrightarrow> x p = 0 \<and> z p = 0"
proof -
  have "sqrt (abs2 p) = \<bar>y p\<bar> \<longleftrightarrow> abs2 p = (y p)\<^sup>2"
    by (metis real_sqrt_abs real_sqrt_eq_iff)
  also have "\<dots> \<longleftrightarrow> x p * x p + z p * z p = 0"
    by (auto simp: abs2_def power2_eq_square)
  also have "\<dots> \<longleftrightarrow> x p = 0 \<and> z p = 0"
    by simp
  finally show ?thesis
    by (simp add: abs3d_def)
qed

lemma force_y_axis:
  assumes "position s = vector3d 0 b 0" and "b \<noteq> 0"
  shows "force c s = Some (- GRAVITY c * MARS_MASS c * sgn b / (b * b)
                            * (fuel s * FUEL_CAPACITY c * FUEL_DENSITY c + UNLOADED_LANDER_MASS c))"
  using assms by (simp add: force_def a_gravity_y_axis) (simp add: vector3d_def)

lemma abs3d_orbit_point: "abs3d (vector3d (- 3250560) 2437920 0) = 4063200"
  unfolding abs3d_def by (rule real_sqrt_unique) (simp_all add: abs2_vector3d)

lemma force_orbit_point:
  "force mars (blank\<lparr>position := vector3d (- 3250560) 2437920 0, velocity := vector3d 1948.252431518235 2597.66990869098 0\<rparr>)
     = Some (- (6.673 / 10 ^ 11 * (6.42 * 10 ^ 23)) * (2437920 / 4063200) / 4063200\<^sup>2 * 200)"
  apply (simp add: force_def a_gravity_def norm3d_def abs3d_orbit_point blank_def)
  apply (simp add: vdiv_def abs2_def smul_def mars_def vector3d_def)
  done

lemma force_descent:
  "b < 0 \<Longrightarrow> force mars (blank\<lparr>position := vector3d 0 b 0, velocity := w\<rparr>)
     = Some (6.673 / 10 ^ 11 * (6.42 * 10 ^ 23) / (b * b) * 200)"
  by (simp add: force_y_axis [where b = b]) (simp add: mars_def blank_def)

lemma alt_descent: "b < 0 \<Longrightarrow> alt mars (blank\<lparr>position := vector3d 0 b 0, velocity := w\<rparr>) = - b - 3386000"
  by (simp add: alt_def mars_def vector3d_def)

lemma MAX_THRUST_mars: "MAX_THRUST mars = 300 * (6.673 / 10 ^ 11 * (6.42 * 10 ^ 23) / 3386000\<^sup>2)"
  by (simp add: mars_def)

lemma force_value:
  assumes "abs2 (position s) \<noteq> 0"
  shows "force c s = Some (- GRAVITY c * MARS_MASS c * (y (position s) / abs3d (position s))
                            / abs2 (position s)
                          * (fuel s * FUEL_CAPACITY c * FUEL_DENSITY c + UNLOADED_LANDER_MASS c))"
proof -
  have "abs3d (position s) \<noteq> 0"
    using assms by (simp add: abs3d_def)
  then show ?thesis
    using assms by (simp add: force_def a_gravity_def vdiv_def norm3d_def smul_def)
qed

lemma abs_y_le_abs3d: "\<bar>y p\<bar> \<le> abs3d p"
proof -
  have "(y p)\<^sup>2 \<le> abs2 p"
    by (simp add: abs2_def power2_eq_square)
  then have "sqrt ((y p)\<^sup>2) \<le> sqrt (abs2 p)"
    by (rule real_sqrt_le_mono)
  then show ?thesis
    by (simp add: abs3d_def)
qed

lemma gravity_y_bounds:
  assumes g: "0 \<le> GRAVITY c" and mm: "0 \<le> MARS_MASS c" and r: "0 < MARS_RADIUS c"
    and yp: "y p \<le> 0" and surf: "(MARS_RADIUS c)\<^sup>2 \<le> abs2 p"
  shows "0 \<le> - GRAVITY c * MARS_MASS c * (y p / abs3d p) / abs2 p"
    and "- GRAVITY c * MARS_MASS c * (y p / abs3d p) / abs2 p
           \<le> GRAVITY c * MARS_MASS c / (MARS_RADIUS c * MARS_RADIUS c)"
proof -
  have r2: "0 < (MARS_RADIUS c)\<^sup>2"
    using r by simp
  have a2: "0 < abs2 p"
    using r2 surf by linarith
  have a3: "0 < abs3d p"
    using a2 by (simp add: abs3d_def)
  have gm: "0 \<le> GRAVITY c * MARS_MASS c"
    using g mm by simp
  define u where "u = - (y p / abs3d p)"
  have u0: "0 \<le> u"
    using yp a3 by (simp add: u_def divide_nonpos_pos)
  have "- y p \<le> abs3d p"
    using abs_y_le_abs3d [of p] by linarith
  then have u1: "u \<le> 1"
    using a3 by (simp add: u_def field_simps)
  have e: "- GRAVITY c * MARS_MASS c * (y p / abs3d p) / abs2 p
             = GRAVITY c * MARS_MASS c * u / abs2 p"
    by (simp add: u_def)
  show "0 \<le> - GRAVITY c * MARS_MASS c * (y p / abs3d p) / abs2 p"
    unfolding e using gm u0 a2 by simp
  have "GRAVITY c * MARS_MASS c * u \<le> GRAVITY c * MARS_MASS c"
    using gm u1 by (simp add: mult_left_le)
  then have "GRAVITY c * MARS_MASS c * u / abs2 p \<le> GRAVITY c * MARS_MASS c / abs2 p"
    using a2 by (simp add: divide_right_mono)
  also have "\<dots> \<le> GRAVITY c * MARS_MASS c / (MARS_RADIUS c)\<^sup>2"
    using a2 r2 by (intro divide_left_mono [OF surf gm]) simp
  finally show "- GRAVITY c * MARS_MASS c * (y p / abs3d p) / abs2 p
           \<le> GRAVITY c * MARS_MASS c / (MARS_RADIUS c * MARS_RADIUS c)"
    unfolding e by (simp add: power2_eq_square)
qed

lemma throttle_in_unit_interval:
  assumes f: "force c s = Some f" and f0: "0 \<le> f" and f1: "f \<le> MAX_THRUST c"
    and m: "0 < MAX_THRUST c"
    and a: "0 \<le> alt c s \<or> (y (velocity s) \<noteq> 0.6 \<and> y (velocity s) \<noteq> 3)"
  shows "\<exists>t. map_option throttle (autopilot c s) = Some t \<and> 0 \<le> t \<and> t \<le> 1"
proof -
  define r where "r = f / MAX_THRUST c"
  define sc where "sc = (if (4000 - alt c s) / 4000 < 0 then 0 else (4000 - alt c s) / 4000)"
  have r: "0 \<le> r" "r \<le> 1"
    using f0 f1 m by (simp_all add: r_def)
  have sc0: "0 \<le> sc"
    by (simp add: sc_def)
  have sc1: "sc \<le> 1" if "0 \<le> alt c s"
    using that by (simp add: sc_def)
  have rs0: "0 \<le> r * sc"
    using r sc0 by simp
  have rs1: "r * sc \<le> 1" if "0 \<le> alt c s"
    using r sc0 sc1 [OF that] by (simp add: mult_le_one)
  have rh: "0 \<le> r * 0.5" "r * 0.5 \<le> 1"
    using r by simp_all
  have m': "MAX_THRUST c \<noteq> 0"
    using m by simp
  show ?thesis
    unfolding autopilot_throttle [OF f m'] r_def [symmetric] sc_def [symmetric]
    using r rs0 rs1 rh a by auto
qed

text \<open>
  C3, as the code has it. \<open>autopilot\<close> has no clamp. Its throttle lies between 0 and 1
  for every lander that is on the side \<open>position.y \<le> 0\<close> of the planet, at or above the
  surface (its distance from the centre is at least MARS_RADIUS), with a fuel fraction
  between 0 and 1, provided that the constants are not negative, the radius is
  positive and MAX_THRUST is positive and at least the weight of the full lander at the
  surface. Where \<open>velocity.y\<close> is exactly 0.6 or 3, values that no band of lines 61 to
  72 matches, the bound is stated for \<open>position.y \<le> - MARS_RADIUS\<close> only.
\<close>

theorem autopilot_throttle_bounds:
  assumes g: "0 \<le> GRAVITY c" and mm: "0 \<le> MARS_MASS c" and r: "0 < MARS_RADIUS c"
    and cap: "0 \<le> FUEL_CAPACITY c" and dens: "0 \<le> FUEL_DENSITY c"
    and um: "0 \<le> UNLOADED_LANDER_MASS c"
    and mt: "0 < MAX_THRUST c"
    and weight: "(FUEL_DENSITY c * FUEL_CAPACITY c + UNLOADED_LANDER_MASS c)
                   * (GRAVITY c * MARS_MASS c / (MARS_RADIUS c * MARS_RADIUS c)) \<le> MAX_THRUST c"
    and yp: "y (position s) \<le> 0" and surf: "(MARS_RADIUS c)\<^sup>2 \<le> abs2 (position s)"
    and fu0: "0 \<le> fuel s" and fu1: "fuel s \<le> 1"
    and edge: "y (position s) \<le> - MARS_RADIUS c
                 \<or> (y (velocity s) \<noteq> 0.6 \<and> y (velocity s) \<noteq> 3)"
  shows "\<exists>t. map_option throttle (autopilot c s) = Some t \<and> 0 \<le> t \<and> t \<le> 1"
proof -
  define gy where "gy = - GRAVITY c * MARS_MASS c * (y (position s) / abs3d (position s))
                          / abs2 (position s)"
  define mtot where "mtot = fuel s * FUEL_CAPACITY c * FUEL_DENSITY c + UNLOADED_LANDER_MASS c"
  define g0 where "g0 = GRAVITY c * MARS_MASS c / (MARS_RADIUS c * MARS_RADIUS c)"
  define mfull where "mfull = FUEL_DENSITY c * FUEL_CAPACITY c + UNLOADED_LANDER_MASS c"
  have nz: "abs2 (position s) \<noteq> 0"
    using r surf by (metis not_less zero_less_power)
  have f: "force c s = Some (gy * mtot)"
    unfolding gy_def mtot_def by (rule force_value [OF nz])
  have gy: "0 \<le> gy" "gy \<le> g0"
    unfolding gy_def g0_def using gravity_y_bounds [OF g mm r yp surf] by simp_all
  define k where "k = FUEL_CAPACITY c * FUEL_DENSITY c"
  have k: "0 \<le> k"
    using cap dens by (simp add: k_def)
  have fk: "0 \<le> fuel s * k" "fuel s * k \<le> k"
    using fu0 fu1 k by (simp_all add: mult_left_le_one_le)
  have "mtot = fuel s * k + UNLOADED_LANDER_MASS c" "mfull = k + UNLOADED_LANDER_MASS c"
    by (simp_all add: mtot_def mfull_def k_def mult.assoc mult.commute)
  then have mt0: "0 \<le> mtot" and mt1: "mtot \<le> mfull"
    using fk um by simp_all
  have f0: "0 \<le> gy * mtot"
    using gy mt0 by simp
  have "gy * mtot \<le> g0 * mfull"
    using gy mt0 mt1 by (intro mult_mono) simp_all
  also have "\<dots> \<le> MAX_THRUST c"
    using weight by (simp add: g0_def mfull_def mult.commute)
  finally have f1: "gy * mtot \<le> MAX_THRUST c" .
  have a: "0 \<le> alt c s \<or> (y (velocity s) \<noteq> 0.6 \<and> y (velocity s) \<noteq> 3)"
    using edge by (auto simp: alt_def)
  show ?thesis
    by (rule throttle_in_unit_interval [OF f f0 f1 mt a])
qed

theorem autopilot_throttle_bounds_witness:
  "(\<exists>t. map_option throttle (autopilot mars
      (blank\<lparr>position := vector3d 0 (- 3387000) 0, velocity := vector3d 0 10 0\<rparr>)) = Some t
     \<and> 0 \<le> t \<and> t \<le> 1)
 \<and> (\<exists>t. map_option throttle (autopilot mars
      (blank\<lparr>position := vector3d (- 3250560) (- 2437920) 0, velocity := vector3d 0 5 0,
             fuel := 0.5\<rparr>)) = Some t
     \<and> 0 \<le> t \<and> t \<le> 1)"
proof (intro conjI)
  show "\<exists>t. map_option throttle (autopilot mars
      (blank\<lparr>position := vector3d 0 (- 3387000) 0, velocity := vector3d 0 10 0\<rparr>)) = Some t
     \<and> 0 \<le> t \<and> t \<le> 1"
    by (rule autopilot_throttle_bounds)
       (simp_all add: mars_def blank_def vector3d_def abs2_def)
  show "\<exists>t. map_option throttle (autopilot mars
      (blank\<lparr>position := vector3d (- 3250560) (- 2437920) 0, velocity := vector3d 0 5 0,
             fuel := 0.5\<rparr>)) = Some t
     \<and> 0 \<le> t \<and> t \<le> 1"
    by (rule autopilot_throttle_bounds)
       (simp_all add: mars_def blank_def vector3d_def abs2_def)
qed

text \<open>
  C3 as stated fails where the lander is on the positive y side: the y component of
  gravity is negative there, and so is the throttle. The state below is a point of the
  circular orbit of scenario 0 (radius 1.2 times that of Mars, speed 3247.087...), three
  fifths of the way up the positive y axis and moving towards positive y; the throttle
  computed is \<open>- 5 / 18\<close>.
\<close>

theorem autopilot_negative_throttle:
  "map_option throttle (autopilot mars
      (blank\<lparr>position := vector3d (- 3250560) 2437920 0,
             velocity := vector3d 1948.252431518235 2597.66990869098 0\<rparr>)) = Some (- 5 / 18)"
proof -
  have m: "MAX_THRUST mars \<noteq> 0"
    by (simp add: mars_def)
  show ?thesis
    unfolding autopilot_throttle [OF force_orbit_point m]
    by (simp add: alt_def blank_def) (simp add: mars_def vector3d_def)
qed

text \<open>
  C4, as the code has it. The test of line 55 is \<open>velocity.y < 0\<close>: at an altitude of at
  least 300 m, whenever the y component of the velocity is strictly negative the
  throttle is set to exactly 0. On the negative y axis, where scenarios 1 and 5 run,
  every ascending lander has \<open>velocity.y < 0\<close>, so there the throttle of an ascending
  lander is exactly 0.
\<close>

theorem autopilot_cuts_negative_velocity:
  assumes a: "300 \<le> alt c s" and p: "abs2 (position s) \<noteq> 0" and m: "MAX_THRUST c \<noteq> 0"
  shows "(y (velocity s) < 0 \<longrightarrow> map_option throttle (autopilot c s) = Some 0)
       \<and> (x (position s) = 0 \<and> z (position s) = 0 \<and> y (position s) < 0 \<and> ascending s \<longrightarrow>
            y (velocity s) < 0 \<and> map_option throttle (autopilot c s) = Some 0)"
proof -
  obtain f where f: "force c s = Some f"
    using force_defined [OF p] by blast
  have cut: "map_option throttle (autopilot c s) = Some 0" if "y (velocity s) < 0"
    using that a by (simp add: autopilot_throttle [OF f m])
  have "y (velocity s) < 0"
    if "x (position s) = 0" "z (position s) = 0" "y (position s) < 0" "ascending s"
    using that by (simp add: ascending_def zero_less_mult_iff)
  with cut show ?thesis
    by blast
qed

theorem autopilot_cuts_negative_velocity_witness:
  "map_option throttle (autopilot mars
      (blank\<lparr>position := vector3d 0 (- 3387000) 0, velocity := vector3d 0 (- 10) 0\<rparr>)) = Some 0
 \<and> ascending (blank\<lparr>position := vector3d 0 (- 3387000) 0, velocity := vector3d 0 (- 10) 0\<rparr>)"
proof -
  have a: "300 \<le> alt mars (blank\<lparr>position := vector3d 0 (- 3387000) 0, velocity := vector3d 0 (- 10) 0\<rparr>)"
    by (simp add: alt_descent)
  have p: "abs2 (position (blank\<lparr>position := vector3d 0 (- 3387000) 0, velocity := vector3d 0 (- 10) 0\<rparr>)) \<noteq> 0"
    by (simp add: abs2_vector3d)
  have m: "MAX_THRUST mars \<noteq> 0"
    by (simp add: mars_def)
  have asc: "ascending (blank\<lparr>position := vector3d 0 (- 3387000) 0, velocity := vector3d 0 (- 10) 0\<rparr>)"
    by (simp add: ascending_def vector3d_def)
  show ?thesis
    using autopilot_cuts_negative_velocity [OF a p m] asc
    by (simp add: vector3d_def)
qed

text \<open>
  C4 as stated fails on the positive y side. On the positive y axis, 1000 m above the
  surface and moving away from the planet with \<open>velocity.y = 10\<close>, the lander is
  ascending and its vertical velocity component is strictly positive; line 55 does not
  cut, and the throttle is the scaled baseline, which is not 0.
\<close>

theorem autopilot_fights_ascent:
  "ascending (blank\<lparr>position := vector3d 0 3387000 0, velocity := vector3d 0 10 0\<rparr>)
 \<and> y (velocity (blank\<lparr>position := vector3d 0 3387000 0, velocity := vector3d 0 10 0\<rparr>)) = 10
 \<and> alt mars (blank\<lparr>position := vector3d 0 3387000 0, velocity := vector3d 0 10 0\<rparr>) = 1000
 \<and> map_option throttle (autopilot mars
      (blank\<lparr>position := vector3d 0 3387000 0, velocity := vector3d 0 10 0\<rparr>))
     = Some (- (3386000\<^sup>2 / (2 * 3387000\<^sup>2)))"
proof -
  have m: "MAX_THRUST mars \<noteq> 0"
    by (simp add: mars_def)
  have f: "force mars (blank\<lparr>position := vector3d 0 3387000 0, velocity := vector3d 0 10 0\<rparr>)
     = Some (- (6.673 / 10 ^ 11 * (6.42 * 10 ^ 23)) / (3387000 * 3387000) * 200)"
    by (simp add: force_y_axis [where b = 3387000]) (simp add: mars_def blank_def)
  have a: "alt mars (blank\<lparr>position := vector3d 0 3387000 0, velocity := vector3d 0 10 0\<rparr>) = 1000"
    by (simp add: alt_def mars_def vector3d_def)
  have t: "map_option throttle (autopilot mars
      (blank\<lparr>position := vector3d 0 3387000 0, velocity := vector3d 0 10 0\<rparr>))
     = Some (- (3386000\<^sup>2 / (2 * 3387000\<^sup>2)))"
    unfolding autopilot_throttle [OF f m]
    by (simp add: a MAX_THRUST_mars) (simp add: vector3d_def)
  show ?thesis
    using a t by (simp add: ascending_def vector3d_def)
qed

text \<open>
  C5, as the code has it. Below 300 m the throttle is \<open>force / MAX_THRUST * 0.5\<close> when
  \<open>velocity.y\<close> lies strictly between 0.6 and 3, \<open>force / MAX_THRUST\<close> when it is above 3,
  and 0 when it is below 0.6; the factor \<open>scaling\<close> of the baseline is not applied, and
  the bands override what lines 54 to 58 computed.
\<close>

theorem autopilot_low_altitude_bands:
  assumes a: "alt c s < 300" and f: "force c s = Some f" and m: "MAX_THRUST c \<noteq> 0"
  shows "(0.6 < y (velocity s) \<and> y (velocity s) < 3 \<longrightarrow>
            map_option throttle (autopilot c s) = Some (f / MAX_THRUST c * 0.5))
       \<and> (3 < y (velocity s) \<longrightarrow> map_option throttle (autopilot c s) = Some (f / MAX_THRUST c))
       \<and> (y (velocity s) < 0.6 \<longrightarrow> map_option throttle (autopilot c s) = Some 0)"
  using a by (simp add: autopilot_throttle [OF f m])

theorem autopilot_low_altitude_bands_witness:
  "map_option throttle (autopilot mars
      (blank\<lparr>position := vector3d 0 (- 3386100) 0, velocity := vector3d 0 2 0\<rparr>))
     = Some (6.673 / 10 ^ 11 * (6.42 * 10 ^ 23) / (- 3386100 * - 3386100) * 200 / MAX_THRUST mars * 0.5)
 \<and> map_option throttle (autopilot mars
      (blank\<lparr>position := vector3d 0 (- 3386100) 0, velocity := vector3d 0 5 0\<rparr>))
     = Some (6.673 / 10 ^ 11 * (6.42 * 10 ^ 23) / (- 3386100 * - 3386100) * 200 / MAX_THRUST mars)
 \<and> map_option throttle (autopilot mars
      (blank\<lparr>position := vector3d 0 (- 3386100) 0, velocity := vector3d 0 0.5 0\<rparr>))
     = Some 0"
proof -
  have m: "MAX_THRUST mars \<noteq> 0"
    by (simp add: mars_def)
  have f: "force mars (blank\<lparr>position := vector3d 0 (- 3386100) 0, velocity := w\<rparr>)
     = Some (6.673 / 10 ^ 11 * (6.42 * 10 ^ 23) / (- 3386100 * - 3386100) * 200)" for w
    by (rule force_descent) simp
  have a: "alt mars (blank\<lparr>position := vector3d 0 (- 3386100) 0, velocity := w\<rparr>) < 300" for w
    by (simp add: alt_descent)
  have v: "y (vector3d 0 b 0) = b" for b
    by (simp add: vector3d_def)
  show ?thesis
    using autopilot_low_altitude_bands [OF a f m, of "vector3d 0 2 0"]
      autopilot_low_altitude_bands [OF a f m, of "vector3d 0 5 0"]
      autopilot_low_altitude_bands [OF a f m, of "vector3d 0 0.5 0"]
    by (simp add: v)
qed

text \<open>
  C5 as stated fails 100 m above the surface with \<open>velocity.y = 2\<close>: the throttle is half
  of \<open>force / MAX_THRUST\<close>, not half of the baseline \<open>force / MAX_THRUST * scaling\<close>, where
  \<open>scaling = (4000 - 100) / 4000\<close>.
\<close>

theorem autopilot_low_altitude_unscaled:
  "alt mars (blank\<lparr>position := vector3d 0 (- 3386100) 0, velocity := vector3d 0 2 0\<rparr>) = 100
 \<and> force mars (blank\<lparr>position := vector3d 0 (- 3386100) 0, velocity := vector3d 0 2 0\<rparr>)
     = Some (6.673 / 10 ^ 11 * (6.42 * 10 ^ 23) / 3386100\<^sup>2 * 200)
 \<and> map_option throttle (autopilot mars
      (blank\<lparr>position := vector3d 0 (- 3386100) 0, velocity := vector3d 0 2 0\<rparr>))
     = Some (6.673 / 10 ^ 11 * (6.42 * 10 ^ 23) / 3386100\<^sup>2 * 200 / MAX_THRUST mars * 0.5)
 \<and> 6.673 / 10 ^ 11 * (6.42 * 10 ^ 23) / 3386100\<^sup>2 * 200 / MAX_THRUST mars * 0.5
     \<noteq> 6.673 / 10 ^ 11 * (6.42 * 10 ^ 23) / 3386100\<^sup>2 * 200 / MAX_THRUST mars
         * ((4000 - 100) / 4000) * 0.5"
proof -
  have m: "MAX_THRUST mars \<noteq> 0"
    by (simp add: mars_def)
  have f: "force mars (blank\<lparr>position := vector3d 0 (- 3386100) 0, velocity := vector3d 0 2 0\<rparr>)
     = Some (6.673 / 10 ^ 11 * (6.42 * 10 ^ 23) / (- 3386100 * - 3386100) * 200)"
    by (rule force_descent) simp
  have t: "map_option throttle (autopilot mars
      (blank\<lparr>position := vector3d 0 (- 3386100) 0, velocity := vector3d 0 2 0\<rparr>))
     = Some (6.673 / 10 ^ 11 * (6.42 * 10 ^ 23) / 3386100\<^sup>2 * 200 / MAX_THRUST mars * 0.5)"
    unfolding autopilot_throttle [OF f m]
    by (simp add: alt_descent) (simp add: vector3d_def)
  show ?thesis
    using f t by (simp add: alt_descent MAX_THRUST_mars)
qed

text \<open>
  C8, as the code has it. The altitude used by \<open>autopilot\<close> is \<open>|position.y|\<close> minus
  MARS_RADIUS. It equals the distance of the position from the centre minus the radius
  exactly when the position lies on the y axis. The \<open>scaling\<close> that the function stores
  is computed from it.
\<close>

theorem autopilot_altitude:
  "alt c s = \<bar>y (position s)\<bar> - MARS_RADIUS c
 \<and> (alt c s = abs3d (position s) - MARS_RADIUS c \<longleftrightarrow> x (position s) = 0 \<and> z (position s) = 0)
 \<and> (abs2 (position s) \<noteq> 0 \<and> MAX_THRUST c \<noteq> 0 \<longrightarrow>
      map_option scaling (autopilot c s) = Some
        (if (4000 - (\<bar>y (position s)\<bar> - MARS_RADIUS c)) / 4000 < 0 then 0
         else (4000 - (\<bar>y (position s)\<bar> - MARS_RADIUS c)) / 4000))"
proof (intro conjI impI)
  show "alt c s = \<bar>y (position s)\<bar> - MARS_RADIUS c"
    by (simp add: alt_def)
  show "alt c s = abs3d (position s) - MARS_RADIUS c \<longleftrightarrow> x (position s) = 0 \<and> z (position s) = 0"
    using abs3d_eq_abs_y [of "position s"] by (auto simp: alt_def)
next
  assume h: "abs2 (position s) \<noteq> 0 \<and> MAX_THRUST c \<noteq> 0"
  then obtain f where f: "force c s = Some f"
    using force_defined by blast
  from h have m: "MAX_THRUST c \<noteq> 0" by simp
  show "map_option scaling (autopilot c s) = Some
        (if (4000 - (\<bar>y (position s)\<bar> - MARS_RADIUS c)) / 4000 < 0 then 0
         else (4000 - (\<bar>y (position s)\<bar> - MARS_RADIUS c)) / 4000)"
    by (simp only: autopilot_scaling [OF f m] alt_def)
qed

theorem autopilot_altitude_witness:
  "map_option scaling (autopilot mars
      (blank\<lparr>position := vector3d 0 (- 3387000) 0, velocity := vector3d 0 10 0\<rparr>)) = Some 0.75
 \<and> abs3d (vector3d 0 (- 3387000) 0) - MARS_RADIUS mars = 1000"
  using autopilot_altitude [of mars "blank\<lparr>position := vector3d 0 (- 3387000) 0, velocity := vector3d 0 10 0\<rparr>"]
  by (simp add: abs2_vector3d abs3d_y_axis) (simp add: mars_def vector3d_def)

text \<open>
  C8 as stated fails off the y axis: at the start of scenario 0 the lander is at
  \<open>(1.2 * MARS_RADIUS, 0, 0)\<close>, 677200 m above the surface, and the altitude used is
  \<open>- MARS_RADIUS\<close>, which gives a \<open>scaling\<close> of 847.5.
\<close>

theorem autopilot_altitude_off_axis:
  "position (initialize_simulation mars blank) = vector3d (1.2 * 3386000) 0 0
 \<and> alt mars (initialize_simulation mars blank) = - 3386000
 \<and> abs3d (position (initialize_simulation mars blank)) - MARS_RADIUS mars = 677200
 \<and> map_option scaling (autopilot mars (initialize_simulation mars blank)) = Some 847.5"
proof -
  have p: "position (initialize_simulation mars blank) = vector3d (1.2 * 3386000) 0 0"
    by (simp add: initialize_simulation_def Let_def describe_scenarios_def blank_def mars_def)
  have n: "abs3d (vector3d (1.2 * 3386000) 0 0) = 4063200"
    by (simp add: abs3d_def abs2_vector3d)
  have a: "alt mars (initialize_simulation mars blank) = - 3386000"
    by (simp add: alt_def p) (simp add: vector3d_def mars_def)
  have "abs2 (position (initialize_simulation mars blank)) \<noteq> 0"
    by (simp add: p abs2_vector3d)
  then obtain f where f: "force mars (initialize_simulation mars blank) = Some f"
    using force_defined by blast
  have m: "MAX_THRUST mars \<noteq> 0"
    by (simp add: mars_def)
  have s: "map_option scaling (autopilot mars (initialize_simulation mars blank)) = Some 847.5"
    unfolding autopilot_scaling [OF f m] a by simp
  have R: "MARS_RADIUS mars = 3386000"
    by (simp add: mars_def)
  have r: "abs3d (position (initialize_simulation mars blank)) - MARS_RADIUS mars = 677200"
    using n by (simp add: p R)
  show ?thesis
    by (intro conjI) (rule p a r s)+
qed

section \<open>The integrator\<close>

lemma autopilot_defined:
  assumes "abs2 (position s) \<noteq> 0" and m: "MAX_THRUST c \<noteq> 0"
  shows "\<exists>s'. autopilot c s = Some s' \<and> position s' = position s \<and> velocity s' = velocity s
           \<and> previous s' = previous s \<and> stabilized_attitude s' = stabilized_attitude s"
proof -
  obtain f where f: "force c s = Some f"
    using force_defined [OF assms(1)] by blast
  show ?thesis
    by (simp add: autopilot_result [OF f m])
qed

lemma numerical_dynamics_tail:
  assumes fr: "\<forall>t. position (attitude_stabilization e t) = position t
                    \<and> velocity (attitude_stabilization e t) = velocity t
                    \<and> previous (attitude_stabilization e t) = previous t"
    and ap: "autopilot_enabled s1 \<longrightarrow> MAX_THRUST c \<noteq> 0 \<and> abs2 (position s1) \<noteq> 0"
  shows "\<exists>s'. do { s \<leftarrow> (if autopilot_enabled s1 then autopilot c s1 else Some s1);
                   Some (if stabilized_attitude s then attitude_stabilization e s else s) } = Some s'
              \<and> position s' = position s1 \<and> velocity s' = velocity s1 \<and> previous s' = previous s1"
proof (cases "autopilot_enabled s1")
  case True
  with ap obtain s2 where s2: "autopilot c s1 = Some s2" "position s2 = position s1"
      "velocity s2 = velocity s1" "previous s2 = previous s1"
    using autopilot_defined [of s1 c] by auto
  show ?thesis
    using True s2 fr by simp
next
  case False
  then show ?thesis
    using fr by simp
qed

lemma free_fall:
  assumes "b < 0" and "fuel s = 1" and "parachute_status s = NOT_DEPLOYED"
  shows "acceleration (uniform_env 0 (vector3d 0 0 0)) mars s (vector3d 0 b 0) w
           = Some (vector3d 0 (6.673 / 10 ^ 11 * (6.42 * 10 ^ 23) / (b * b)) 0)"
  using assms
  by (simp add: acceleration_def a_gravity_y_axis drag_cases self_drag_def mass_def vdiv_def)
     (simp add: uniform_env_def mars_def vadd_def smul_def vector3d_def)

text \<open>
  C2. Let the force model return the acceleration \<open>a\<close>, and let the attitude
  stabilization leave position, velocity and previous position alone. When the
  simulation time is 0, \<open>numerical_dynamics\<close> takes one Euler step with the quadratic
  correction: the previous position becomes the position, the position becomes
  \<open>position + velocity * delta_t + 0.5 * delta_t * delta_t * a\<close> and the velocity
  \<open>velocity + delta_t * a\<close>. When the simulation time is positive (and the time step is
  not zero) it takes the central-difference step and nothing else:
  \<open>next = 2 * position - previous + a * delta_t * delta_t\<close>, the velocity becomes
  \<open>(next - previous) / (2 * delta_t)\<close>, the previous position the old position, and the
  position \<open>next\<close>. In both cases the function returns a state; when the autopilot is
  enabled this needs MAX_THRUST not zero and the new position not the origin.
\<close>

theorem numerical_dynamics_step:
  assumes fr: "\<forall>t. position (attitude_stabilization e t) = position t
                    \<and> velocity (attitude_stabilization e t) = velocity t
                    \<and> previous (attitude_stabilization e t) = previous t"
    and acc: "acceleration e c s (position s) (velocity s) = Some a"
  shows "let p0 = vadd (vadd (position s) (vmul (velocity s) (delta_t s)))
                       (smul (0.5 * delta_t s * delta_t s) a);
             v0 = vadd (velocity s) (smul (delta_t s) a);
             next = vadd (vsub (smul 2 (position s)) (previous s))
                         (vmul (vmul a (delta_t s)) (delta_t s))
         in (simulation_time s = 0
               \<and> (autopilot_enabled s \<longrightarrow> MAX_THRUST c \<noteq> 0 \<and> abs2 p0 \<noteq> 0) \<longrightarrow>
             (\<exists>s'. numerical_dynamics e c s = Some s' \<and> previous s' = position s
                  \<and> position s' = p0 \<and> velocity s' = v0))
          \<and> (0 < simulation_time s \<and> delta_t s \<noteq> 0
               \<and> (autopilot_enabled s \<longrightarrow> MAX_THRUST c \<noteq> 0 \<and> abs2 next \<noteq> 0) \<longrightarrow>
             (\<exists>s'. numerical_dynamics e c s = Some s' \<and> previous s' = position s
                  \<and> position s' = next
                  \<and> vdiv (vsub next (previous s)) (2 * delta_t s) = Some (velocity s')))"
proof -
  define p0 where "p0 = vadd (vadd (position s) (vmul (velocity s) (delta_t s)))
                             (smul (0.5 * delta_t s * delta_t s) a)"
  define v0 where "v0 = vadd (velocity s) (smul (delta_t s) a)"
  define "next" where "next = vadd (vsub (smul 2 (position s)) (previous s))
                                   (vmul (vmul a (delta_t s)) (delta_t s))"
  have boot: "\<exists>s'. numerical_dynamics e c s = Some s' \<and> previous s' = position s
                  \<and> position s' = p0 \<and> velocity s' = v0"
    if t: "simulation_time s = 0"
      and ap: "autopilot_enabled s \<longrightarrow> MAX_THRUST c \<noteq> 0 \<and> abs2 p0 \<noteq> 0"
  proof -
    define s1 where "s1 = s\<lparr>previous := position s, position := p0, velocity := v0\<rparr>"
    have nd: "numerical_dynamics e c s =
        do { s \<leftarrow> (if autopilot_enabled s1 then autopilot c s1 else Some s1);
             Some (if stabilized_attitude s then attitude_stabilization e s else s) }"
      using t acc by (simp add: numerical_dynamics_def Let_def s1_def p0_def v0_def)
    have "autopilot_enabled s1 \<longrightarrow> MAX_THRUST c \<noteq> 0 \<and> abs2 (position s1) \<noteq> 0"
      using ap by (simp add: s1_def)
    from numerical_dynamics_tail [OF fr this] obtain s' where
      r: "do { s \<leftarrow> (if autopilot_enabled s1 then autopilot c s1 else Some s1);
               Some (if stabilized_attitude s then attitude_stabilization e s else s) } = Some s'"
      and q: "position s' = position s1" "velocity s' = velocity s1" "previous s' = previous s1"
      by blast
    have "position s' = p0" "velocity s' = v0" "previous s' = position s"
      using q by (simp_all add: s1_def)
    with r show ?thesis
      unfolding nd by simp
  qed
  have steady: "\<exists>s'. numerical_dynamics e c s = Some s' \<and> previous s' = position s
                  \<and> position s' = next
                  \<and> vdiv (vsub next (previous s)) (2 * delta_t s) = Some (velocity s')"
    if t: "0 < simulation_time s" and dt: "delta_t s \<noteq> 0"
      and ap: "autopilot_enabled s \<longrightarrow> MAX_THRUST c \<noteq> 0 \<and> abs2 next \<noteq> 0"
  proof -
    obtain w where w: "vdiv (vsub next (previous s)) (2 * delta_t s) = Some w"
      using dt by (simp add: vdiv_def)
    define s1 where "s1 = s\<lparr>velocity := w, previous := position s, position := next\<rparr>"
    have nd: "numerical_dynamics e c s =
        do { s \<leftarrow> (if autopilot_enabled s1 then autopilot c s1 else Some s1);
             Some (if stabilized_attitude s then attitude_stabilization e s else s) }"
      using t acc w by (simp add: numerical_dynamics_def Let_def s1_def next_def)
    have "autopilot_enabled s1 \<longrightarrow> MAX_THRUST c \<noteq> 0 \<and> abs2 (position s1) \<noteq> 0"
      using ap by (simp add: s1_def)
    from numerical_dynamics_tail [OF fr this] obtain s' where
      r: "do { s \<leftarrow> (if autopilot_enabled s1 then autopilot c s1 else Some s1);
               Some (if stabilized_attitude s then attitude_stabilization e s else s) } = Some s'"
      and q: "position s' = position s1" "velocity s' = velocity s1" "previous s' = previous s1"
      by blast
    have "position s' = next" "velocity s' = w" "previous s' = position s"
      using q by (simp_all add: s1_def)
    with r show ?thesis
      unfolding nd w by simp
  qed
  show ?thesis
    unfolding Let_def p0_def [symmetric] v0_def [symmetric] next_def [symmetric]
    using boot steady by blast
qed

theorem numerical_dynamics_step_witness:
  "(\<exists>s'. numerical_dynamics (uniform_env 0 (vector3d 0 0 0)) mars
            (blank\<lparr>position := vector3d 0 (- 3396000) 0, delta_t := 0.1,
                   stabilized_attitude := True, autopilot_enabled := True\<rparr>) = Some s'
        \<and> previous s' = vector3d 0 (- 3396000) 0
        \<and> velocity s' = vadd (vector3d 0 0 0)
            (smul 0.1 (vector3d 0 (6.673 / 10 ^ 11 * (6.42 * 10 ^ 23) / (- 3396000 * - 3396000)) 0)))
 \<and> (\<exists>s'. numerical_dynamics (uniform_env 0 (vector3d 0 0 0)) mars
            (blank\<lparr>position := vector3d 0 (- 3395999) 0, previous := vector3d 0 (- 3396000) 0,
                   delta_t := 0.1, simulation_time := 0.1\<rparr>) = Some s'
        \<and> previous s' = vector3d 0 (- 3395999) 0
        \<and> position s' = vadd (vsub (smul 2 (vector3d 0 (- 3395999) 0)) (vector3d 0 (- 3396000) 0))
            (vmul (vmul (vector3d 0 (6.673 / 10 ^ 11 * (6.42 * 10 ^ 23) / (- 3395999 * - 3395999)) 0)
               0.1) 0.1))"
proof -
  have fr: "\<forall>t. position (attitude_stabilization (uniform_env 0 (vector3d 0 0 0)) t) = position t
      \<and> velocity (attitude_stabilization (uniform_env 0 (vector3d 0 0 0)) t) = velocity t
      \<and> previous (attitude_stabilization (uniform_env 0 (vector3d 0 0 0)) t) = previous t"
    by (simp add: uniform_env_def)
  have a0: "acceleration (uniform_env 0 (vector3d 0 0 0)) mars
        (blank\<lparr>position := vector3d 0 (- 3396000) 0, delta_t := 0.1,
               stabilized_attitude := True, autopilot_enabled := True\<rparr>)
        (position (blank\<lparr>position := vector3d 0 (- 3396000) 0, delta_t := 0.1,
               stabilized_attitude := True, autopilot_enabled := True\<rparr>))
        (velocity (blank\<lparr>position := vector3d 0 (- 3396000) 0, delta_t := 0.1,
               stabilized_attitude := True, autopilot_enabled := True\<rparr>))
      = Some (vector3d 0 (6.673 / 10 ^ 11 * (6.42 * 10 ^ 23) / (- 3396000 * - 3396000)) 0)"
    by (simp add: free_fall blank_def)
  have a1: "acceleration (uniform_env 0 (vector3d 0 0 0)) mars
        (blank\<lparr>position := vector3d 0 (- 3395999) 0, previous := vector3d 0 (- 3396000) 0,
                   delta_t := 0.1, simulation_time := 0.1\<rparr>)
        (position (blank\<lparr>position := vector3d 0 (- 3395999) 0, previous := vector3d 0 (- 3396000) 0,
                   delta_t := 0.1, simulation_time := 0.1\<rparr>))
        (velocity (blank\<lparr>position := vector3d 0 (- 3395999) 0, previous := vector3d 0 (- 3396000) 0,
                   delta_t := 0.1, simulation_time := 0.1\<rparr>))
      = Some (vector3d 0 (6.673 / 10 ^ 11 * (6.42 * 10 ^ 23) / (- 3395999 * - 3395999)) 0)"
    by (simp add: free_fall blank_def)
  have m: "MAX_THRUST mars \<noteq> 0"
    by (simp add: mars_def)
  have p: "abs2 (vadd (vadd (vector3d 0 (- 3396000) 0) (vmul (vector3d 0 0 0) 0.1))
      (smul (0.5 * 0.1 * 0.1)
         (vector3d 0 (6.673 / 10 ^ 11 * (6.42 * 10 ^ 23) / (- 3396000 * - 3396000)) 0))) \<noteq> 0"
    by (simp add: abs2_def vadd_def vmul_def smul_def vector3d_def)
  show ?thesis
    using numerical_dynamics_step [OF fr a0] numerical_dynamics_step [OF fr a1] m p
    by (simp add: Let_def blank_def) blast
qed

section \<open>Scenario selection\<close>

lemma describe_scenarios_fields [simp]:
  "position (describe_scenarios s) = position s"
  "velocity (describe_scenarios s) = velocity s"
  "orientation (describe_scenarios s) = orientation s"
  "delta_t (describe_scenarios s) = delta_t s"
  "parachute_status (describe_scenarios s) = parachute_status s"
  "stabilized_attitude (describe_scenarios s) = stabilized_attitude s"
  "autopilot_enabled (describe_scenarios s) = autopilot_enabled s"
  "scenario (describe_scenarios s) = scenario s"
  by (simp_all add: describe_scenarios_def)

lemma initialize_simulation_other:
  "scenario s < 0 \<or> 5 < scenario s \<Longrightarrow> initialize_simulation c s = describe_scenarios s"
  by (auto simp: initialize_simulation_def Let_def)

text \<open>
  C9. When \<open>scenario\<close> selects no defined scenario, that is one of the empty cases 6 to 9
  or a value outside 0 to 9 (for which the switch has no case), \<open>initialize_simulation\<close>
  leaves position, velocity, orientation, delta_t, parachute_status,
  stabilized_attitude and autopilot_enabled as the caller set them.
\<close>

theorem initialize_simulation_no_scenario:
  assumes "scenario s < 0 \<or> 5 < scenario s"
  shows "position (initialize_simulation c s) = position s
       \<and> velocity (initialize_simulation c s) = velocity s
       \<and> orientation (initialize_simulation c s) = orientation s
       \<and> delta_t (initialize_simulation c s) = delta_t s
       \<and> parachute_status (initialize_simulation c s) = parachute_status s
       \<and> stabilized_attitude (initialize_simulation c s) = stabilized_attitude s
       \<and> autopilot_enabled (initialize_simulation c s) = autopilot_enabled s"
  by (simp add: initialize_simulation_other [OF assms])

theorem initialize_simulation_no_scenario_witness:
  "position (initialize_simulation mars (blank\<lparr>scenario := 7, delta_t := 0.5\<rparr>)) = vector3d 0 0 0
   \<and> delta_t (initialize_simulation mars (blank\<lparr>scenario := 7, delta_t := 0.5\<rparr>)) = 0.5
   \<and> autopilot_enabled (initialize_simulation mars (blank\<lparr>scenario := 12, autopilot_enabled := True\<rparr>))"
  using initialize_simulation_no_scenario [of "blank\<lparr>scenario := 7, delta_t := 0.5\<rparr>" mars]
        initialize_simulation_no_scenario [of "blank\<lparr>scenario := 12, autopilot_enabled := True\<rparr>" mars]
  by (simp add: blank_def)

end
